theory Spec2Isabelle
  imports Main "HOL-Library.Word"
begin

section \<open>The TectonicDB client of src/src/tectonic.ts\<close>

text \<open>
  The client serialises textual commands onto one socket and hands each inbound data
  event to the query it holds as active. The embedding keeps the three fields of the
  class that the queueing logic reads and writes (\<open>socketSendQueue\<close>, \<open>activeQuery\<close>,
  \<open>initialized\<close>) and replaces the socket and the promises, which live outside the
  object, by a trace of the calls made on them, in the order the code makes them.
  The fields \<open>port\<close> and \<open>address\<close> are only passed to \<open>socket.connect\<close> and are left out.
\<close>

subsection \<open>Data\<close>

type_synonym byte = "8 word"

text \<open>\<open>interface TectonicResponse { success: boolean; data: string }\<close>\<close>

record TectonicResponse =
  success :: bool
  data :: string

text \<open>
  \<open>interface SocketQuery { message; cb; onError }\<close>. In \<open>cmd\<close> the two callbacks are the
  \<open>resolve\<close> and \<open>reject\<close> functions of one freshly created promise; the field
  \<open>promise\<close> names that promise, and calling \<open>cb\<close> or \<open>onError\<close> is the effect
  \<open>Resolve\<close> or \<open>Reject\<close> on it.
\<close>

record SocketQuery =
  message :: string
  promise :: nat

text \<open>
  What the client does to the world outside the object: \<open>socket.write(s)\<close>,
  \<open>query.cb(response)\<close>, \<open>query.onError(err)\<close> and \<open>socket.destroy()\<close>. \<open>Write\<close>
  records the call to \<open>socket.write\<close> with its argument.
\<close>

datatype 'e effect =
    Write string
  | Resolve nat TectonicResponse
  | Reject nat 'e
  | Destroy

record 'e TectonicDB =
  socketSendQueue :: "SocketQuery list"
  activeQuery :: "SocketQuery option"
  initialized :: bool
  trace :: "'e effect list"

text \<open>The strings written to the socket, in order.\<close>

fun writes :: "'e effect list \<Rightarrow> string list" where
  "writes [] = []"
| "writes (Write s # es) = s # writes es"
| "writes (Resolve p r # es) = writes es"
| "writes (Reject p x # es) = writes es"
| "writes (Destroy # es) = writes es"

text \<open>The promises resolved through \<open>cb\<close>, in order, each with the response it got.\<close>

fun resolved :: "'e effect list \<Rightarrow> (nat \<times> TectonicResponse) list" where
  "resolved [] = []"
| "resolved (Resolve p r # es) = (p, r) # resolved es"
| "resolved (Write s # es) = resolved es"
| "resolved (Reject p x # es) = resolved es"
| "resolved (Destroy # es) = resolved es"

subsection \<open>Construction and the socket's event handlers\<close>

text \<open>
  The constructor followed by \<open>init()\<close>, which runs to its end synchronously: no query is
  active, the client is not initialized, the queue is empty and nothing has been done
  to the socket but \<open>connect\<close> and the registration of the handlers below.
\<close>

definition new_TectonicDB :: "'e TectonicDB" where
  "new_TectonicDB =
     \<lparr>socketSendQueue = [], activeQuery = None, initialized = False, trace = []\<rparr>"

text \<open>\<open>sendSocketMsg(msg) { this.socket.write(msg+'\n'); }\<close>\<close>

definition sendSocketMsg :: "string \<Rightarrow> 'e TectonicDB \<Rightarrow> 'e TectonicDB" where
  "sendSocketMsg msg c = c\<lparr>trace := trace c @ [Write (msg @ [CHR 0x0A])]\<rparr>"

text \<open>What \<open>socket.write\<close> receives for each of a list of command texts.\<close>

definition lines :: "string list \<Rightarrow> string list" where
  "lines ms = map (\<lambda>m. m @ ''\<newline>'') ms"

text \<open>\<open>exit() { this.socket.destroy(); }\<close>\<close>

definition exit :: "'e TectonicDB \<Rightarrow> 'e TectonicDB" where
  "exit c = c\<lparr>trace := trace c @ [Destroy]\<rparr>"

text \<open>
  The callback given to \<open>socket.connect\<close> (lines 43 to 53): it sets \<open>initialized\<close>, and
  if the queue is not empty it shifts the head into \<open>activeQuery\<close> and sends its message.
\<close>

definition onConnect :: "'e TectonicDB \<Rightarrow> 'e TectonicDB" where
  "onConnect c =
     (let c1 = c\<lparr>initialized := True\<rparr>
      in case socketSendQueue c1 of
           [] \<Rightarrow> c1
         | q # rest \<Rightarrow>
             sendSocketMsg (message q) (c1\<lparr>activeQuery := Some q, socketSendQueue := rest\<rparr>))"

text \<open>
  The \<open>'error'\<close> handler (lines 62 to 66):
  \<open>if (client.activeQuery) { client.activeQuery.onError(err); }\<close> and nothing else.
\<close>

definition onSocketError :: "'e \<Rightarrow> 'e TectonicDB \<Rightarrow> 'e TectonicDB" where
  "onSocketError err c =
     (case activeQuery c of
        Some q \<Rightarrow> c\<lparr>trace := trace c @ [Reject (promise q) err]\<rparr>
      | None \<Rightarrow> c)"

subsection \<open>Decoding a data event\<close>

text \<open>
  \<open>String.fromCharCode.apply(null, bytes)\<close>: one character per byte, the byte being its
  character code.
\<close>

definition fromCharCode :: "byte list \<Rightarrow> string" where
  "fromCharCode bs = map (\<lambda>b. char_of (unat b)) bs"

text \<open>
  \<open>data.subarray(begin, end)\<close> for non-negative arguments: both are clamped to the
  length of the buffer, and the result is empty when \<open>end \<le> begin\<close>.
\<close>

definition subarray :: "nat \<Rightarrow> nat \<Rightarrow> 'a list \<Rightarrow> 'a list" where
  "subarray b e xs = drop b (take e xs)"

text \<open>
  Lines 154 to 157 of \<open>handleSocketData\<close>.
  \<open>data.subarray(0, 8)[0] === 1\<close> is false on an empty buffer (\<open>undefined === 1\<close>).
  \<open>new Uint32Array(data.subarray(8,9))[0]\<close> copies the at most one byte of the subarray
  into a fresh array of 32-bit elements: it is the value of byte 8, or \<open>undefined\<close>
  (here \<open>None\<close>) when the buffer has no byte 8. With \<open>len\<close> undefined, \<open>len+12\<close> is
  \<open>NaN\<close>, which \<open>subarray\<close> reads as the end index 0.
\<close>

definition frame_success :: "byte list \<Rightarrow> bool" where
  "frame_success d = (case subarray 0 8 d of [] \<Rightarrow> False | b # _ \<Rightarrow> b = 1)"

definition frame_len :: "byte list \<Rightarrow> nat option" where
  "frame_len d = (case subarray 8 9 d of [] \<Rightarrow> None | b # _ \<Rightarrow> Some (unat b))"

definition frame_body :: "byte list \<Rightarrow> string" where
  "frame_body d =
     fromCharCode (subarray 9 (case frame_len d of None \<Rightarrow> 0 | Some len \<Rightarrow> len + 12) d)"

definition decode :: "byte list \<Rightarrow> TectonicResponse" where
  "decode d = \<lparr>success = frame_success d, data = frame_body d\<rparr>"

text \<open>
  \<open>data.toString().endsWith(s)\<close> for an ASCII string \<open>s\<close>. \<open>toString\<close> decodes the
  buffer as UTF-8, where an ASCII character comes from exactly the one byte that is
  its code and a trailing byte that is not ASCII never decodes to an ASCII character:
  the decoded text ends with \<open>s\<close> exactly when the last bytes of the buffer are the
  codes of \<open>s\<close>.
\<close>

definition toString_endsWith :: "byte list \<Rightarrow> string \<Rightarrow> bool" where
  "toString_endsWith d s =
     (length s \<le> length d \<and> fromCharCode (drop (length d - length s) d) = s)"

text \<open>
  \<open>handleSocketData\<close> (lines 151 to 177): decode; call the active query's \<open>cb\<close> if there
  is an active query; call \<open>exit\<close> if the buffer's text ends with \<open>exit\<close>; then either
  clear \<open>activeQuery\<close> (empty queue) or shift the head of the queue into it. The last
  branch is \<open>client.activeQuery = this.socketSendQueue.shift();\<close> and nothing more.
\<close>

definition handleSocketData :: "byte list \<Rightarrow> 'e TectonicDB \<Rightarrow> 'e TectonicDB" where
  "handleSocketData d c =
     (let response = decode d;
          c1 = (case activeQuery c of
                  Some q \<Rightarrow> c\<lparr>trace := trace c @ [Resolve (promise q) response]\<rparr>
                | None \<Rightarrow> c);
          c2 = (if toString_endsWith d ''exit'' then exit c1 else c1)
      in case socketSendQueue c2 of
           [] \<Rightarrow> c2\<lparr>activeQuery := None\<rparr>
         | q # rest \<Rightarrow> c2\<lparr>activeQuery := Some q, socketSendQueue := rest\<rparr>)"

subsection \<open>Submitting a command\<close>

text \<open>
  \<open>cmd(message)\<close> (lines 183 to 203). The argument \<open>p\<close> names the promise that
  \<open>new Promise\<close> creates and \<open>cmd\<close> returns. The branch condition is
  \<open>!client.activeQuery || !this.initialized\<close>.
\<close>

definition cmd :: "string \<Rightarrow> nat \<Rightarrow> 'e TectonicDB \<Rightarrow> 'e TectonicDB" where
  "cmd msg p c =
     (let query = \<lparr>message = msg, promise = p\<rparr>
      in if activeQuery c = None \<or> \<not> initialized c
         then sendSocketMsg msg (c\<lparr>activeQuery := Some query\<rparr>)
         else c\<lparr>socketSendQueue := socketSendQueue c @ [query]\<rparr>)"

subsection \<open>The command interface\<close>

text \<open>
  The record a caller passes to \<open>add\<close> and \<open>bulkadd\<close> (type \<open>DBUpdate\<close>, imported from
  \<open>./typings\<close>). The four numeric fields are JavaScript numbers; their type is the
  parameter \<open>'n\<close>, and the conversion a template literal applies to a number is the
  parameter \<open>str\<close> of the functions below. The fields \<open>pair\<close> and \<open>type\<close> are not read by
  the client.
\<close>

record 'n DBUpdate =
  timestamp :: 'n
  seq :: 'n
  is_trade :: bool
  is_bid :: bool
  price :: 'n
  size' :: 'n

text \<open>
  Line 83, the template of \<open>add\<close>:
  \<open>ADD ${timestamp}, ${seq}, ${is_trade ? 't' : 'f'}, ${is_bid ? 't':'f'}, ${price}, ${size};\<close>
\<close>

definition add_text :: "('n \<Rightarrow> string) \<Rightarrow> 'n DBUpdate \<Rightarrow> string" where
  "add_text str u =
     ''ADD '' @ str (timestamp u) @ '', '' @ str (seq u) @ '', ''
       @ (if is_trade u then ''t'' else ''f'') @ '', ''
       @ (if is_bid u then ''t'' else ''f'') @ '', ''
       @ str (price u) @ '', '' @ str (size' u) @ '';''"

text \<open>Lines 89 and 97, the template of one row of a bulk insert.\<close>

definition row_text :: "('n \<Rightarrow> string) \<Rightarrow> 'n DBUpdate \<Rightarrow> string" where
  "row_text str u =
     str (timestamp u) @ '', '' @ str (seq u) @ '', ''
       @ (if is_trade u then ''t'' else ''f'') @ '', ''
       @ (if is_bid u then ''t'' else ''f'') @ '', ''
       @ str (price u) @ '', '' @ str (size' u) @ '';''"

text \<open>
  \<open>add(update)\<close> is \<open>return await this.cmd(...)\<close>: one call of \<open>cmd\<close>, and the caller's
  future settles as the promise of that call does.
\<close>

definition add :: "('n \<Rightarrow> string) \<Rightarrow> 'n DBUpdate \<Rightarrow> nat \<Rightarrow> 'e TectonicDB \<Rightarrow> 'e TectonicDB" where
  "add str u p c = cmd (add_text str u) p c"

text \<open>
  \<open>get(n)\<close> and \<open>getall()\<close> call \<open>cmd\<close> once and, when its promise resolves with a
  response, return a value computed from it (lines 107 to 124). \<open>JSON.parse\<close> is the
  parameter \<open>parse\<close>; \<open>Inl\<close> is the exception it throws on text that is not JSON,
  which the async function passes on to its caller.
\<close>

datatype 'j returned = Parsed 'j | Raw string | Null

definition get_text :: "('n \<Rightarrow> string) \<Rightarrow> 'n \<Rightarrow> string" where
  "get_text str n = ''GET '' @ str n @ '' AS JSON''"

definition get :: "('n \<Rightarrow> string) \<Rightarrow> 'n \<Rightarrow> nat \<Rightarrow> 'e TectonicDB \<Rightarrow> 'e TectonicDB" where
  "get str n p c = cmd (get_text str n) p c"

definition get_return :: "(string \<Rightarrow> 'x + 'j) \<Rightarrow> TectonicResponse \<Rightarrow> 'x + 'j returned" where
  "get_return parse r =
     (if success r
      then (case parse (data r) of Inl x \<Rightarrow> Inl x | Inr j \<Rightarrow> Inr (Parsed j))
      else Inr (Raw (data r)))"

definition getall :: "nat \<Rightarrow> 'e TectonicDB \<Rightarrow> 'e TectonicDB" where
  "getall p c = cmd ''GET ALL AS JSON'' p c"

definition getall_return :: "(string \<Rightarrow> 'x + 'j) \<Rightarrow> TectonicResponse \<Rightarrow> 'x + 'j returned" where
  "getall_return parse r =
     (if success r
      then (case parse (data r) of Inl x \<Rightarrow> Inl x | Inr j \<Rightarrow> Inr (Parsed j))
      else Inr Null)"

subsection \<open>The bulk insert as a suspended computation\<close>

text \<open>
  \<open>bulkadd\<close> and \<open>bulkadd_into\<close> (lines 86 to 100) are async functions with an \<open>await\<close> in
  front of every call of \<open>cmd\<close>. Between two calls the function is suspended on the
  promise of the call it made last. \<open>Awaiting p (InLoop us)\<close> is the function suspended
  on promise \<open>p\<close> with the updates \<open>us\<close> still to be visited by the \<open>for\<close> loop (the
  call awaited is the opener or a row); \<open>Awaiting p AtReturn\<close> is the function suspended
  in \<open>return await this.cmd('DDAKLUB')\<close>. The \<open>k\<close>-th call of \<open>cmd\<close> that the function
  makes creates the promise \<open>p + k\<close>, \<open>p\<close> being the promise of the opener.
\<close>

datatype 'n position = InLoop "'n DBUpdate list" | AtReturn

datatype ('n, 'e) bulk =
    Awaiting nat "'n position"
  | Returned TectonicResponse
  | Threw 'e

text \<open>
  One bulk insert and the client it runs on: where the function stands (\<open>task\<close>), the
  texts it has passed to \<open>this.cmd\<close> so far, in the order of the calls (\<open>calls\<close>),
  and the client. \<open>calls\<close> is to the async function what \<open>trace\<close> is to the client:
  a record of the calls it makes, extended exactly where the function calls \<open>cmd\<close>.
\<close>

record ('n, 'e) world =
  task :: "('n, 'e) bulk"
  calls :: "string list"
  client :: "'e TectonicDB"



text \<open>
  The function resumed with the response \<open>r\<close> its awaited promise \<open>p\<close> resolved with:
  the loop calls \<open>cmd\<close> with the row of the next update, or, the updates exhausted,
  the function calls \<open>cmd\<close> with \<open>DDAKLUB\<close>; resumed in the \<open>return\<close>, it returns \<open>r\<close>.
\<close>

fun resume ::
  "('n \<Rightarrow> string) \<Rightarrow> TectonicResponse \<Rightarrow> nat \<Rightarrow> 'n position \<Rightarrow> ('n, 'e) world \<Rightarrow> ('n, 'e) world" where
  "resume str r p (InLoop (u # us)) w =
     w\<lparr>task := Awaiting (Suc p) (InLoop us), calls := calls w @ [row_text str u],
       client := cmd (row_text str u) (Suc p) (client w)\<rparr>"
| "resume str r p (InLoop []) w =
     w\<lparr>task := Awaiting (Suc p) AtReturn, calls := calls w @ [''DDAKLUB''],
       client := cmd ''DDAKLUB'' (Suc p) (client w)\<rparr>"
| "resume str r p AtReturn w = w\<lparr>task := Returned r\<rparr>"

text \<open>
  A data event seen by the client and by a suspended bulk insert. \<open>handleSocketData\<close>
  runs to its end first; the continuation of an \<open>await\<close> is a microtask, which runs
  after the handler that resolved the promise has returned. The promise resolved by
  the event is the one of the query that was active when the event arrived, and the
  function is resumed only if that is the promise it awaits.
\<close>

definition bulk_data :: "('n \<Rightarrow> string) \<Rightarrow> byte list \<Rightarrow> ('n, 'e) world \<Rightarrow> ('n, 'e) world" where
  "bulk_data str d w =
     (let w' = w\<lparr>client := handleSocketData d (client w)\<rparr>
      in case task w of
           Awaiting p pos \<Rightarrow>
             (case activeQuery (client w) of
                Some q \<Rightarrow> if promise q = p then resume str (decode d) p pos w' else w'
              | None \<Rightarrow> w')
         | Returned r \<Rightarrow> w'
         | Threw x \<Rightarrow> w')"

text \<open>
  A socket error seen by both: \<open>onError\<close> rejects the promise of the active query, and
  an \<open>await\<close> on a rejected promise throws.
\<close>

definition bulk_error :: "'e \<Rightarrow> ('n, 'e) world \<Rightarrow> ('n, 'e) world" where
  "bulk_error x w =
     (let w' = w\<lparr>client := onSocketError x (client w)\<rparr>
      in case task w of
           Awaiting p pos \<Rightarrow>
             (case activeQuery (client w) of
                Some q \<Rightarrow> if promise q = p then w'\<lparr>task := Threw x\<rparr> else w'
              | None \<Rightarrow> w')
         | Returned r \<Rightarrow> w'
         | Threw y \<Rightarrow> w')"


subsection \<open>Sequences of events\<close>

text \<open>
  What can happen to a client: a caller runs \<open>cmd\<close>, the socket connects, a data event
  arrives, the socket reports an error.
\<close>

datatype 'e event =
    Cmd string nat
  | Connected
  | Data "byte list"
  | SocketError 'e

fun step :: "'e event \<Rightarrow> 'e TectonicDB \<Rightarrow> 'e TectonicDB" where
  "step (Cmd msg p) c = cmd msg p c"
| "step Connected c = onConnect c"
| "step (Data d) c = handleSocketData d c"
| "step (SocketError x) c = onSocketError x c"

fun run :: "'e event list \<Rightarrow> 'e TectonicDB \<Rightarrow> 'e TectonicDB" where
  "run [] c = c"
| "run (e # es) c = run es (step e c)"

fun is_Connected :: "'e event \<Rightarrow> bool" where
  "is_Connected Connected = True"
| "is_Connected (Cmd msg p) = False"
| "is_Connected (Data d) = False"
| "is_Connected (SocketError x) = False"

fun is_Cmd :: "'e event \<Rightarrow> bool" where
  "is_Cmd (Cmd msg p) = True"
| "is_Cmd Connected = False"
| "is_Cmd (Data d) = False"
| "is_Cmd (SocketError x) = False"

text \<open>The command texts that the callers of a sequence of events submit, in order.\<close>

fun submitted :: "'e event list \<Rightarrow> string list" where
  "submitted [] = []"
| "submitted (Cmd msg p # es) = msg # submitted es"
| "submitted (Connected # es) = submitted es"
| "submitted (Data d # es) = submitted es"
| "submitted (SocketError x # es) = submitted es"

subsection \<open>A bulk insert among other events\<close>

text \<open>
  The events of a client while a bulk insert is in progress: another caller's \<open>cmd\<close>
  and the connect callback touch the client only; data events and socket errors are
  also seen by the suspended function.
\<close>

fun world_step :: "('n \<Rightarrow> string) \<Rightarrow> 'e event \<Rightarrow> ('n, 'e) world \<Rightarrow> ('n, 'e) world" where
  "world_step str (Cmd msg q) w = w\<lparr>client := cmd msg q (client w)\<rparr>"
| "world_step str Connected w = w\<lparr>client := onConnect (client w)\<rparr>"
| "world_step str (Data d) w = bulk_data str d w"
| "world_step str (SocketError x) w = bulk_error x w"

fun world_run :: "('n \<Rightarrow> string) \<Rightarrow> 'e event list \<Rightarrow> ('n, 'e) world \<Rightarrow> ('n, 'e) world" where
  "world_run str [] w = w"
| "world_run str (e # es) w = world_run str es (world_step str e w)"






subsection \<open>One command on the wire at a time\<close>

text \<open>
  Read along a trace: a command is awaiting its reply from the \<open>Write\<close> that sent it
  until the next \<open>Resolve\<close>, the delivery of a response. \<open>awaiting_reply b t\<close> says
  whether one is awaiting at the end of \<open>t\<close>, given that \<open>b\<close> says so at its start;
  \<open>one_at_a_time b t\<close> says that no \<open>Write\<close> of \<open>t\<close> happens while a command is
  awaiting its reply.
\<close>

fun awaiting_reply :: "bool \<Rightarrow> 'e effect list \<Rightarrow> bool" where
  "awaiting_reply b [] = b"
| "awaiting_reply b (Write s # t) = awaiting_reply True t"
| "awaiting_reply b (Resolve p r # t) = awaiting_reply False t"
| "awaiting_reply b (Reject p x # t) = awaiting_reply b t"
| "awaiting_reply b (Destroy # t) = awaiting_reply b t"

fun one_at_a_time :: "bool \<Rightarrow> 'e effect list \<Rightarrow> bool" where
  "one_at_a_time b [] = True"
| "one_at_a_time b (Write s # t) = (\<not> b \<and> one_at_a_time True t)"
| "one_at_a_time b (Resolve p r # t) = one_at_a_time False t"
| "one_at_a_time b (Reject p x # t) = one_at_a_time b t"
| "one_at_a_time b (Destroy # t) = one_at_a_time b t"

text \<open>
  The state of a connected client in which at most one command is on the wire: the
  trace so far has one command at a time, and a command awaiting its reply is the
  active query's.
\<close>

definition single_active :: "'e TectonicDB \<Rightarrow> bool" where
  "single_active c =
     (initialized c \<and> one_at_a_time False (trace c)
      \<and> (awaiting_reply False (trace c) \<longrightarrow> activeQuery c \<noteq> None))"


section \<open>Properties\<close>

subsection \<open>The trace projections\<close>

lemma writes_append [simp]: "writes (xs @ ys) = writes xs @ writes ys"
  by (induction xs rule: writes.induct) simp_all

lemma resolved_append [simp]: "resolved (xs @ ys) = resolved xs @ resolved ys"
  by (induction xs rule: resolved.induct) simp_all

lemma lines_simps [simp]:
  "lines [] = []" "lines (m # ms) = (m @ ''\<newline>'') # lines ms"
  by (simp_all add: lines_def)

lemma lines_append [simp]: "lines (xs @ ys) = lines xs @ lines ys"
  by (simp add: lines_def)

subsection \<open>What \<open>cmd\<close> does in each branch\<close>

lemma cmd_connected_busy:
  "initialized c \<Longrightarrow> activeQuery c \<noteq> None \<Longrightarrow>
     cmd msg p c = c\<lparr>socketSendQueue := socketSendQueue c @ [\<lparr>message = msg, promise = p\<rparr>]\<rparr>"
  by (auto simp add: cmd_def Let_def)

lemma cmd_idle:
  "activeQuery c = None \<or> \<not> initialized c \<Longrightarrow>
     cmd msg p c = sendSocketMsg msg (c\<lparr>activeQuery := Some \<lparr>message = msg, promise = p\<rparr>\<rparr>)"
  by (auto simp add: cmd_def Let_def)

lemma queue_kept_unless_data:
  "\<not> is_Connected e \<Longrightarrow> (\<exists>d. e = Data d)
     \<or> take (length (socketSendQueue c)) (socketSendQueue (step e c)) = socketSendQueue c"
  by (cases e) (auto simp: cmd_def sendSocketMsg_def onSocketError_def Let_def split: option.splits)

lemma data_shifts_queue:
  "socketSendQueue c = q # rest \<Longrightarrow>
     activeQuery (handleSocketData d c) = Some q \<and> socketSendQueue (handleSocketData d c) = rest"
  by (simp add: handleSocketData_def exit_def Let_def split: option.splits)

subsection \<open>The active query\<close>

lemma awaiting_reply_append [simp]:
  "awaiting_reply b (xs @ ys) = awaiting_reply (awaiting_reply b xs) ys"
  by (induction b xs rule: awaiting_reply.induct) simp_all

lemma one_at_a_time_append [simp]:
  "one_at_a_time b (xs @ ys) = (one_at_a_time b xs \<and> one_at_a_time (awaiting_reply b xs) ys)"
  by (induction b xs rule: one_at_a_time.induct) simp_all

lemma single_active_cmd: "single_active c \<Longrightarrow> single_active (cmd msg p c)"
  by (auto simp: single_active_def cmd_def sendSocketMsg_def Let_def)

lemma single_active_data: "single_active c \<Longrightarrow> single_active (handleSocketData d c)"
  by (auto simp: single_active_def handleSocketData_def exit_def Let_def split: option.splits list.splits)

lemma single_active_error: "single_active c \<Longrightarrow> single_active (onSocketError x c)"
  by (auto simp: single_active_def onSocketError_def split: option.splits)

lemma single_active_step: "single_active c \<Longrightarrow> \<not> is_Connected e \<Longrightarrow> single_active (step e c)"
  by (cases e) (simp_all add: single_active_cmd single_active_data single_active_error)

lemma single_active_run:
  "single_active c \<Longrightarrow> list_all (\<lambda>e. \<not> is_Connected e) es \<Longrightarrow> single_active (run es c)"
  by (induction es arbitrary: c) (simp_all add: single_active_step)

text \<open>
  C1, as amended. On a client that has reached Connected with at most one command on
  the wire (\<open>single_active\<close>), after every sequence of calls of \<open>cmd\<close>, data events and
  socket errors: the trace has one command on the wire at a time; \<open>cmd\<close> leaves the
  active query and the socket alone and appends to the queue when a query is active,
  and makes its query active and writes it when none is; no event but a data event
  takes a query out of the queue, and a data event makes the head of the queue the
  active query.
\<close>

theorem single_active_query:
  assumes "single_active c" and "list_all (\<lambda>e. \<not> is_Connected e) es"
  shows "single_active (run es c)
    \<and> one_at_a_time False (trace (run es c))
    \<and> (activeQuery (run es c) \<noteq> None \<longrightarrow>
         trace (cmd msg p (run es c)) = trace (run es c)
         \<and> activeQuery (cmd msg p (run es c)) = activeQuery (run es c)
         \<and> socketSendQueue (cmd msg p (run es c))
             = socketSendQueue (run es c) @ [\<lparr>message = msg, promise = p\<rparr>])
    \<and> (activeQuery (run es c) = None \<longrightarrow>
         trace (cmd msg p (run es c)) = trace (run es c) @ [Write (msg @ ''\<newline>'')]
         \<and> activeQuery (cmd msg p (run es c)) = Some \<lparr>message = msg, promise = p\<rparr>
         \<and> socketSendQueue (cmd msg p (run es c)) = socketSendQueue (run es c))
    \<and> (\<forall>e. \<not> is_Connected e \<longrightarrow> (\<exists>d. e = Data d)
         \<or> take (length (socketSendQueue (run es c))) (socketSendQueue (step e (run es c)))
             = socketSendQueue (run es c))
    \<and> (\<forall>d q rest. socketSendQueue (run es c) = q # rest \<longrightarrow>
         activeQuery (handleSocketData d (run es c)) = Some q
         \<and> socketSendQueue (handleSocketData d (run es c)) = rest)"
proof -
  have inv: "single_active (run es c)"
    using assms by (rule single_active_run)
  then have init: "initialized (run es c)" and one: "one_at_a_time False (trace (run es c))"
    by (simp_all add: single_active_def)
  have busy: "activeQuery (run es c) \<noteq> None \<longrightarrow>
         trace (cmd msg p (run es c)) = trace (run es c)
         \<and> activeQuery (cmd msg p (run es c)) = activeQuery (run es c)
         \<and> socketSendQueue (cmd msg p (run es c))
             = socketSendQueue (run es c) @ [\<lparr>message = msg, promise = p\<rparr>]"
    using init by (simp add: cmd_connected_busy)
  have idle: "activeQuery (run es c) = None \<longrightarrow>
         trace (cmd msg p (run es c)) = trace (run es c) @ [Write (msg @ ''\<newline>'')]
         \<and> activeQuery (cmd msg p (run es c)) = Some \<lparr>message = msg, promise = p\<rparr>
         \<and> socketSendQueue (cmd msg p (run es c)) = socketSendQueue (run es c)"
    by (simp add: cmd_idle sendSocketMsg_def)
  have kept: "\<forall>e. \<not> is_Connected e \<longrightarrow> (\<exists>d. e = Data d)
         \<or> take (length (socketSendQueue (run es c))) (socketSendQueue (step e (run es c)))
             = socketSendQueue (run es c)"
    using queue_kept_unless_data by blast
  have shift: "\<forall>d q rest. socketSendQueue (run es c) = q # rest \<longrightarrow>
         activeQuery (handleSocketData d (run es c)) = Some q
         \<and> socketSendQueue (handleSocketData d (run es c)) = rest"
    using data_shifts_queue by blast
  from inv one busy idle kept shift show ?thesis by blast
qed

text \<open>The theorem at a connected client that is sent two commands, a frame and a third command.\<close>

theorem single_active_query_witness:
  "single_active (onConnect (new_TectonicDB :: string TectonicDB))
   \<and> one_at_a_time False
       (trace (run [Cmd ''PING'' 0, Cmd ''INFO'' 1, Data [1, 0, 0, 0, 0, 0, 0, 0, 0], Cmd ''HELP'' 2]
                 (onConnect (new_TectonicDB :: string TectonicDB))))
   \<and> trace (run [Cmd ''PING'' 0, Cmd ''INFO'' 1, Data [1, 0, 0, 0, 0, 0, 0, 0, 0], Cmd ''HELP'' 2]
                 (onConnect (new_TectonicDB :: string TectonicDB)))
       = [Write ''PING\<newline>'', Resolve 0 \<lparr>success = True, data = ''''\<rparr>]"
proof -
  have a: "single_active (onConnect (new_TectonicDB :: string TectonicDB))"
    by (simp add: single_active_def onConnect_def new_TectonicDB_def)
  have b: "list_all (\<lambda>e. \<not> is_Connected e)
             [Cmd ''PING'' 0, Cmd ''INFO'' 1, Data [1, 0, 0, 0, 0, 0, 0, 0, 0], Cmd ''HELP'' (2::nat) :: string event]"
    by simp
  have t: "trace (run [Cmd ''PING'' 0, Cmd ''INFO'' 1, Data [1, 0, 0, 0, 0, 0, 0, 0, 0], Cmd ''HELP'' 2]
                 (onConnect (new_TectonicDB :: string TectonicDB)))
       = [Write ''PING\<newline>'', Resolve 0 \<lparr>success = True, data = ''''\<rparr>]"
    by (simp add: onConnect_def new_TectonicDB_def cmd_def sendSocketMsg_def handleSocketData_def
        decode_def frame_success_def frame_len_def frame_body_def subarray_def fromCharCode_def
        toString_endsWith_def exit_def Let_def)
  from single_active_query [OF a b] a t show ?thesis by blast
qed

text \<open>
  C1 as stated fails before the connection is established: the second of two calls of
  \<open>cmd\<close> finds a query active, and still makes its own query active and writes it, so
  that two commands are on the wire with no reply in between.
\<close>

theorem two_commands_on_the_wire_before_connected:
  "activeQuery (cmd ''A'' 0 (new_TectonicDB :: string TectonicDB)) = Some \<lparr>message = ''A'', promise = 0\<rparr>
   \<and> trace (cmd ''B'' 1 (cmd ''A'' 0 (new_TectonicDB :: string TectonicDB)))
       = [Write ''A\<newline>'', Write ''B\<newline>'']
   \<and> activeQuery (cmd ''B'' 1 (cmd ''A'' 0 (new_TectonicDB :: string TectonicDB)))
       = Some \<lparr>message = ''B'', promise = 1\<rparr>
   \<and> \<not> one_at_a_time False (trace (cmd ''B'' 1 (cmd ''A'' 0 (new_TectonicDB :: string TectonicDB))))"
  by (simp add: new_TectonicDB_def cmd_def sendSocketMsg_def Let_def)


subsection \<open>Commands submitted before the connection is established\<close>

lemma run_append: "run (es @ fs) c = run fs (run es c)"
  by (induction es arbitrary: c) simp_all

lemma submitted_append: "submitted (es @ fs) = submitted es @ submitted fs"
  by (induction es rule: submitted.induct) simp_all

lemma cmds_before_connected:
  "list_all is_Cmd es \<Longrightarrow> \<not> initialized c \<Longrightarrow>
     \<not> initialized (run es c)
     \<and> socketSendQueue (run es c) = socketSendQueue c
     \<and> writes (trace (run es c)) = writes (trace c) @ lines (submitted es)"
proof (induction es arbitrary: c)
  case Nil
  then show ?case by simp
next
  case (Cons e es)
  then obtain msg p where e: "e = Cmd msg p"
    by (cases e) simp_all
  have s: "\<not> initialized (cmd msg p c) \<and> socketSendQueue (cmd msg p c) = socketSendQueue c
      \<and> writes (trace (cmd msg p c)) = writes (trace c) @ [msg @ ''\<newline>'']"
    using Cons.prems(2) by (simp add: cmd_idle sendSocketMsg_def)
  from Cons.prems(1) have "list_all is_Cmd es" by simp
  from Cons.IH [OF this, of "cmd msg p c"] s show ?case
    by (simp add: e)
qed

lemma onConnect_empty_queue:
  "socketSendQueue c = [] \<Longrightarrow> onConnect c = c\<lparr>initialized := True\<rparr>"
  by (simp add: onConnect_def)

text \<open>
  C3, as amended. \<open>cmd\<close> makes its query active and writes it at once when no query is
  active or the client is not yet initialized, and appends it to the tail of the queue
  when a query is active on an initialized client. Commands submitted to a new client
  before it is connected are each written once, at submission and in order; the queue
  stays empty, and the connect callback writes nothing.
\<close>

theorem cmd_sends_when_idle_or_not_connected:
  fixes c :: "'e TectonicDB" and es :: "'e event list"
  shows
  "(activeQuery c = None \<or> \<not> initialized c \<longrightarrow>
      trace (cmd msg p c) = trace c @ [Write (msg @ ''\<newline>'')]
      \<and> activeQuery (cmd msg p c) = Some \<lparr>message = msg, promise = p\<rparr>
      \<and> socketSendQueue (cmd msg p c) = socketSendQueue c)
   \<and> (activeQuery c \<noteq> None \<and> initialized c \<longrightarrow>
      trace (cmd msg p c) = trace c
      \<and> activeQuery (cmd msg p c) = activeQuery c
      \<and> socketSendQueue (cmd msg p c) = socketSendQueue c @ [\<lparr>message = msg, promise = p\<rparr>])
   \<and> (list_all is_Cmd es \<longrightarrow>
      writes (trace (run es new_TectonicDB)) = lines (submitted es)
      \<and> socketSendQueue (run es new_TectonicDB) = []
      \<and> trace (onConnect (run es new_TectonicDB)) = trace (run es new_TectonicDB)
      \<and> initialized (onConnect (run es new_TectonicDB)))"
proof -
  have a: "activeQuery c = None \<or> \<not> initialized c \<longrightarrow>
      trace (cmd msg p c) = trace c @ [Write (msg @ ''\<newline>'')]
      \<and> activeQuery (cmd msg p c) = Some \<lparr>message = msg, promise = p\<rparr>
      \<and> socketSendQueue (cmd msg p c) = socketSendQueue c"
    by (simp add: cmd_idle sendSocketMsg_def)
  have b: "activeQuery c \<noteq> None \<and> initialized c \<longrightarrow>
      trace (cmd msg p c) = trace c
      \<and> activeQuery (cmd msg p c) = activeQuery c
      \<and> socketSendQueue (cmd msg p c) = socketSendQueue c @ [\<lparr>message = msg, promise = p\<rparr>]"
    by (simp add: cmd_connected_busy)
  have c: "list_all is_Cmd es \<longrightarrow>
      writes (trace (run es (new_TectonicDB :: 'e TectonicDB))) = lines (submitted es)
      \<and> socketSendQueue (run es (new_TectonicDB :: 'e TectonicDB)) = []
      \<and> trace (onConnect (run es (new_TectonicDB :: 'e TectonicDB))) = trace (run es new_TectonicDB)
      \<and> initialized (onConnect (run es (new_TectonicDB :: 'e TectonicDB)))"
  proof
    assume h: "list_all is_Cmd es"
    have n: "\<not> initialized (new_TectonicDB :: 'e TectonicDB)"
      by (simp add: new_TectonicDB_def)
    from cmds_before_connected [OF h n]
    have w: "writes (trace (run es (new_TectonicDB :: 'e TectonicDB))) = lines (submitted es)"
      and q: "socketSendQueue (run es (new_TectonicDB :: 'e TectonicDB)) = []"
      by (simp_all add: new_TectonicDB_def)
    from w q show "writes (trace (run es (new_TectonicDB :: 'e TectonicDB))) = lines (submitted es)
      \<and> socketSendQueue (run es (new_TectonicDB :: 'e TectonicDB)) = []
      \<and> trace (onConnect (run es (new_TectonicDB :: 'e TectonicDB))) = trace (run es new_TectonicDB)
      \<and> initialized (onConnect (run es (new_TectonicDB :: 'e TectonicDB)))"
      by (simp add: onConnect_empty_queue)
  qed
  from a b c show ?thesis by blast
qed

text \<open>The theorem at \<open>PING\<close> on a new client and at \<open>INFO\<close> behind an active \<open>PING\<close>.\<close>

theorem cmd_sends_when_idle_or_not_connected_witness:
  "trace (cmd ''PING'' 7 (new_TectonicDB :: string TectonicDB)) = [Write ''PING\<newline>'']
   \<and> socketSendQueue (cmd ''INFO'' 8 (cmd ''PING'' 7 (onConnect (new_TectonicDB :: string TectonicDB))))
       = [\<lparr>message = ''INFO'', promise = 8\<rparr>]
   \<and> writes (trace (run [Cmd ''PING'' 7] (new_TectonicDB :: string TectonicDB))) = [''PING\<newline>'']
   \<and> trace (onConnect (run [Cmd ''PING'' 7] (new_TectonicDB :: string TectonicDB)))
       = trace (run [Cmd ''PING'' 7] (new_TectonicDB :: string TectonicDB))"
proof -
  have n: "activeQuery (new_TectonicDB :: string TectonicDB) = None
           \<or> \<not> initialized (new_TectonicDB :: string TectonicDB)"
    by (simp add: new_TectonicDB_def)
  have t: "trace (new_TectonicDB :: string TectonicDB) = []"
    by (simp add: new_TectonicDB_def)
  have b: "activeQuery (cmd ''PING'' 7 (onConnect (new_TectonicDB :: string TectonicDB))) \<noteq> None
           \<and> initialized (cmd ''PING'' 7 (onConnect (new_TectonicDB :: string TectonicDB)))"
    by (simp add: new_TectonicDB_def onConnect_def cmd_def sendSocketMsg_def Let_def)
  have q: "socketSendQueue (cmd ''PING'' 7 (onConnect (new_TectonicDB :: string TectonicDB))) = []"
    by (simp add: new_TectonicDB_def onConnect_def cmd_def sendSocketMsg_def Let_def)
  have l: "list_all is_Cmd [Cmd ''PING'' 7 :: string event]"
    by simp
  from cmd_sends_when_idle_or_not_connected
         [of "new_TectonicDB :: string TectonicDB" "''PING''" 7 "[Cmd ''PING'' 7]"]
       cmd_sends_when_idle_or_not_connected
         [of "cmd ''PING'' 7 (onConnect (new_TectonicDB :: string TectonicDB))" "''INFO''" 8 "[]"]
       n t b q l
  show ?thesis by simp
qed

text \<open>
  C3 as stated fails: a command submitted to a client that is not connected is written
  to the socket at once, the queue stays empty, and the connect callback writes nothing.
\<close>

theorem command_written_before_connected:
  "\<not> initialized (new_TectonicDB :: string TectonicDB)
   \<and> trace (cmd ''PING'' 0 (new_TectonicDB :: string TectonicDB)) = [Write ''PING\<newline>'']
   \<and> socketSendQueue (cmd ''PING'' 0 (new_TectonicDB :: string TectonicDB)) = []
   \<and> \<not> initialized (cmd ''PING'' 0 (new_TectonicDB :: string TectonicDB))
   \<and> trace (onConnect (cmd ''PING'' 0 (new_TectonicDB :: string TectonicDB))) = [Write ''PING\<newline>'']"
  by (simp add: new_TectonicDB_def cmd_def sendSocketMsg_def onConnect_def Let_def)


subsection \<open>Socket errors\<close>

text \<open>
  C5, as amended. A socket error with a query active calls that query's \<open>onError\<close>
  with the error and changes nothing else: the query stays active and the queue is as
  it was. A socket error with no query active changes nothing.
\<close>

theorem socket_error_rejects_active_query:
  "(activeQuery c = Some q \<longrightarrow>
      trace (onSocketError err c) = trace c @ [Reject (promise q) err]
      \<and> activeQuery (onSocketError err c) = Some q
      \<and> socketSendQueue (onSocketError err c) = socketSendQueue c
      \<and> initialized (onSocketError err c) = initialized c)
   \<and> (activeQuery c = None \<longrightarrow> onSocketError err c = c)"
  by (simp add: onSocketError_def)

text \<open>The theorem at a connected client with \<open>PING\<close> active, and at an idle one.\<close>

theorem socket_error_rejects_active_query_witness:
  "trace (onSocketError ''ECONNRESET'' (cmd ''PING'' 0 (onConnect new_TectonicDB)))
     = [Write ''PING\<newline>'', Reject 0 ''ECONNRESET'']
   \<and> onSocketError ''ECONNRESET'' (onConnect new_TectonicDB) = onConnect new_TectonicDB"
proof -
  have a: "activeQuery (cmd ''PING'' 0 (onConnect (new_TectonicDB :: string TectonicDB)))
             = Some \<lparr>message = ''PING'', promise = 0\<rparr>"
    and t: "trace (cmd ''PING'' 0 (onConnect (new_TectonicDB :: string TectonicDB))) = [Write ''PING\<newline>'']"
    and n: "activeQuery (onConnect (new_TectonicDB :: string TectonicDB)) = None"
    by (simp_all add: new_TectonicDB_def onConnect_def cmd_def sendSocketMsg_def Let_def)
  from socket_error_rejects_active_query
         [of "cmd ''PING'' 0 (onConnect new_TectonicDB)" "\<lparr>message = ''PING'', promise = 0\<rparr>" "''ECONNRESET''"]
       socket_error_rejects_active_query
         [of "onConnect new_TectonicDB" "\<lparr>message = ''PING'', promise = 0\<rparr>" "''ECONNRESET''"]
       a t n
  show ?thesis by simp
qed

text \<open>
  C5 as stated fails: after the error the failed query is still the active one, and
  the query behind it is still in the queue and has not been written.
\<close>

theorem socket_error_keeps_query_active:
  "activeQuery (onSocketError ''ECONNRESET'' (cmd ''INFO'' 1 (cmd ''PING'' 0 (onConnect new_TectonicDB))))
     = Some \<lparr>message = ''PING'', promise = 0\<rparr>
   \<and> socketSendQueue (onSocketError ''ECONNRESET'' (cmd ''INFO'' 1 (cmd ''PING'' 0 (onConnect new_TectonicDB))))
     = [\<lparr>message = ''INFO'', promise = 1\<rparr>]
   \<and> trace (onSocketError ''ECONNRESET'' (cmd ''INFO'' 1 (cmd ''PING'' 0 (onConnect new_TectonicDB))))
     = [Write ''PING\<newline>'', Reject 0 ''ECONNRESET'']"
  by (simp add: new_TectonicDB_def onConnect_def cmd_def sendSocketMsg_def onSocketError_def Let_def)

subsection \<open>The queue after a response\<close>

text \<open>
  A data event resolves the promise of the query that was active, with the decoded
  frame, and writes nothing to the socket, whatever the queue holds.
\<close>

lemma resolved_data:
  "resolved (trace (handleSocketData d c))
     = resolved (trace c) @ (case activeQuery c of Some q \<Rightarrow> [(promise q, decode d)] | None \<Rightarrow> [])"
  by (simp add: handleSocketData_def exit_def Let_def split: option.splits list.splits)

lemma data_never_writes: "writes (trace (handleSocketData d c)) = writes (trace c)"
  by (simp add: handleSocketData_def exit_def Let_def split: option.splits list.splits)

text \<open>
  C2, evaluated. \<open>PING\<close> and \<open>INFO\<close> are submitted in that order to an idle connected
  client, and the response to \<open>PING\<close> arrives. \<open>PING\<close> is the only command ever written
  to the socket: \<open>INFO\<close> has left the queue and become the active query, and has not
  been sent.
\<close>

theorem queued_command_is_never_written:
  "writes (trace (run [Cmd ''PING'' 0, Cmd ''INFO'' 1, Data [1, 0, 0, 0, 0, 0, 0, 0, 2, 0x4F, 0x4B]]
                   (onConnect (new_TectonicDB :: string TectonicDB))))
     = [''PING\<newline>'']
   \<and> activeQuery (run [Cmd ''PING'' 0, Cmd ''INFO'' 1, Data [1, 0, 0, 0, 0, 0, 0, 0, 2, 0x4F, 0x4B]]
                   (onConnect (new_TectonicDB :: string TectonicDB)))
     = Some \<lparr>message = ''INFO'', promise = 1\<rparr>
   \<and> socketSendQueue (run [Cmd ''PING'' 0, Cmd ''INFO'' 1, Data [1, 0, 0, 0, 0, 0, 0, 0, 2, 0x4F, 0x4B]]
                   (onConnect (new_TectonicDB :: string TectonicDB)))
     = []"
  by (simp add: new_TectonicDB_def onConnect_def cmd_def sendSocketMsg_def handleSocketData_def
        toString_endsWith_def exit_def Let_def)

subsection \<open>Decoding\<close>

text \<open>
  A buffer that is a flag byte, eight more bytes and then a payload decodes to the
  flag's comparison with 1 and to the characters of the payload, cut after as many
  of them as the last of the eight bytes says plus three.
\<close>

lemma drop_7_of_8: "length lf = 8 \<Longrightarrow> drop 7 lf = [last lf]"
proof -
  assume l: "length lf = 8"
  then have "lf \<noteq> []" by auto
  then have "lf = butlast lf @ [last lf]" by simp
  moreover have "length (butlast lf) = 7" using l by simp
  ultimately show ?thesis
    by (metis append_eq_conv_conj)
qed

lemma decode_frame:
  assumes "length lf = 8"
  shows "decode (flag # lf @ payload)
           = \<lparr>success = (flag = 1), data = fromCharCode (take (unat (last lf) + 3) payload)\<rparr>"
proof -
  have s: "frame_success (flag # lf @ payload) = (flag = 1)"
    by (simp add: frame_success_def subarray_def)
  have l: "frame_len (flag # lf @ payload) = Some (unat (last lf))"
    using assms by (simp add: frame_len_def subarray_def drop_7_of_8)
  have b: "frame_body (flag # lf @ payload) = fromCharCode (take (unat (last lf) + 3) payload)"
    using assms by (simp add: frame_body_def l subarray_def drop_take add.commute)
  from s b show ?thesis by (simp add: decode_def)
qed

lemma decode_not_success:
  "(case d of [] \<Rightarrow> True | b # _ \<Rightarrow> b \<noteq> 1) \<Longrightarrow> \<not> success (decode d)"
  by (cases d) (simp_all add: decode_def frame_success_def subarray_def)

text \<open>
  C4, evaluated. A success frame whose eight-byte big-endian length field says 256 and
  whose payload is 256 times the letter \<open>a\<close> decodes to the first three letters only;
  and a frame with the payload \<open>OK\<close> followed in the same buffer by the start of the
  next frame decodes to \<open>OK\<close> and three characters of that next frame.
\<close>

theorem long_payload_is_cut:
  "decode ([1, 0, 0, 0, 0, 0, 0, 1, 0] @ replicate 256 0x61) = \<lparr>success = True, data = ''aaa''\<rparr>
   \<and> decode ([1, 0, 0, 0, 0, 0, 0, 0, 2, 0x4F, 0x4B] @ [0, 0, 0, 0, 0, 0, 0, 0, 2, 0x6E, 0x6F])
       = \<lparr>success = True, data = ''OK'' @ [CHR 0x00, CHR 0x00, CHR 0x00]\<rparr>"
proof -
  have "decode (1 # [0, 0, 0, 0, 0, 0, 1, 0] @ replicate 256 0x61)
          = \<lparr>success = ((1::byte) = 1), data = fromCharCode (take (unat (last [0, 0, 0, 0, 0, 0, 1, 0 :: byte]) + 3) (replicate 256 0x61))\<rparr>"
    by (rule decode_frame) simp
  moreover have "fromCharCode (replicate 3 0x61) = ''aaa''"
    by code_simp
  moreover have "decode ([1, 0, 0, 0, 0, 0, 0, 0, 2, 0x4F, 0x4B] @ [0, 0, 0, 0, 0, 0, 0, 0, 2, 0x6E, 0x6F])
       = \<lparr>success = True, data = ''OK'' @ [CHR 0x00, CHR 0x00, CHR 0x00]\<rparr>"
    by code_simp
  ultimately show ?thesis by simp
qed

subsection \<open>The bulk insert\<close>























lemma data_after_the_end:
  assumes "\<forall>p pos. task w \<noteq> Awaiting p pos"
  shows "task (world_run str (map Data ds) w) = task w
         \<and> calls (world_run str (map Data ds) w) = calls w
         \<and> writes (trace (client (world_run str (map Data ds) w))) = writes (trace (client w))"
  using assms
proof (induction ds arbitrary: w)
  case Nil
  then show ?case by simp
next
  case (Cons d ds)
  let ?w = "w\<lparr>client := handleSocketData d (client w)\<rparr>"
  from Cons.prems have s: "bulk_data str d w = ?w"
    by (cases "task w") (simp_all add: bulk_data_def)
  from Cons.prems have "\<forall>p pos. task ?w \<noteq> Awaiting p pos"
    by simp
  from Cons.IH [OF this] show ?case
    by (simp add: s data_never_writes)
qed







text \<open>
  A socket error while the command a bulk insert awaits is the active query ends the
  bulk insert: the \<open>await\<close> throws, and data events that follow make it call nothing more.
\<close>

lemma bulk_error_throws:
  assumes "task w = Awaiting p pos" and "activeQuery (client w) = Some q" and "promise q = p"
  shows "task (world_run str (map Data ds) (bulk_error x w)) = Threw x
         \<and> calls (world_run str (map Data ds) (bulk_error x w)) = calls w"
proof -
  have "bulk_error x w = w\<lparr>client := onSocketError x (client w), task := Threw x\<rparr>"
    using assms by (simp add: bulk_error_def)
  moreover have "\<forall>p pos. task (w\<lparr>client := onSocketError x (client w), task := Threw x\<rparr>) \<noteq> Awaiting p pos"
    by simp
  from data_after_the_end [OF this, of str ds]
  have "task (world_run str (map Data ds) (w\<lparr>client := onSocketError x (client w), task := Threw x\<rparr>)) = Threw x
        \<and> calls (world_run str (map Data ds) (w\<lparr>client := onSocketError x (client w), task := Threw x\<rparr>)) = calls w"
    by simp
  ultimately show ?thesis by simp
qed


subsection \<open>One \<open>add\<close> from submission to reply\<close>

text \<open>
  C7. On an idle connected client, \<open>add\<close> of the record with timestamp 100, seq 0, both
  flags true, price 0.1 and size 0.1 (numbers that the template literal prints as
  \<open>100\<close>, \<open>0\<close>, \<open>0.1\<close>, \<open>0.1\<close>) writes exactly the line
  \<open>ADD 100, 0, t, t, 0.1, 0.1;\<close>, and a reply made of the byte 1, the eight bytes
  of the length field and the two bytes of \<open>OK\<close> then resolves the caller's promise
  with success true and data \<open>OK\<close>, and does nothing else.
\<close>

theorem add_end_to_end:
  assumes "initialized c" and "activeQuery c = None"
    and "str ts = ''100''" and "str sq = ''0''" and "str pr = ''0.1''" and "str sz = ''0.1''"
    and "length lf = 8"
  shows "trace (add str \<lparr>timestamp = ts, seq = sq, is_trade = True, is_bid = True, price = pr, size' = sz\<rparr> p c)
           = trace c @ [Write ''ADD 100, 0, t, t, 0.1, 0.1;\<newline>'']
         \<and> trace (handleSocketData (1 # lf @ [0x4F, 0x4B])
                    (add str \<lparr>timestamp = ts, seq = sq, is_trade = True, is_bid = True, price = pr, size' = sz\<rparr> p c))
           = trace c @ [Write ''ADD 100, 0, t, t, 0.1, 0.1;\<newline>'',
                        Resolve p \<lparr>success = True, data = ''OK''\<rparr>]"
proof -
  let ?u = "\<lparr>timestamp = ts, seq = sq, is_trade = True, is_bid = True, price = pr, size' = sz\<rparr>"
  have line: "add_text str ?u = ''ADD 100, 0, t, t, 0.1, 0.1;''"
    using assms(3-6) by (simp add: add_text_def)
  have a: "add str ?u p c
             = sendSocketMsg ''ADD 100, 0, t, t, 0.1, 0.1;''
                 (c\<lparr>activeQuery := Some \<lparr>message = ''ADD 100, 0, t, t, 0.1, 0.1;'', promise = p\<rparr>\<rparr>)"
    using assms(2) by (simp add: add_def line cmd_idle)
  have ok: "fromCharCode [0x4F, 0x4B] = ''OK''"
    by code_simp
  have d: "decode (1 # lf @ [0x4F, 0x4B]) = \<lparr>success = True, data = ''OK''\<rparr>"
    using assms(7) by (simp add: decode_frame ok)
  have ne: "\<not> toString_endsWith (1 # lf @ [0x4F, 0x4B]) ''exit''"
  proof
    assume "toString_endsWith (1 # lf @ [0x4F, 0x4B]) ''exit''"
    then have "fromCharCode (drop (length (1 # lf @ [0x4F, 0x4B :: byte]) - 4) (1 # lf @ [0x4F, 0x4B])) = ''exit''"
      by (simp add: toString_endsWith_def)
    moreover have "drop (length (1 # lf @ [0x4F, 0x4B :: byte]) - 4) (1 # lf @ [0x4F, 0x4B])
                     = drop 6 lf @ [0x4F, 0x4B]"
      using assms(7) by simp
    moreover have "length (drop 6 lf) = 2" using assms(7) by simp
    then obtain x y where "drop 6 lf = [x, y]"
      by (metis (no_types, opaque_lifting) One_nat_def Suc_1 length_0_conv length_Suc_conv)
    ultimately have "fromCharCode [x, y, 0x4F, 0x4B] = ''exit''" by simp
    then have "fromCharCode [0x4F, 0x4B] = ''it''" by (simp add: fromCharCode_def)
    with ok show False by simp
  qed
  show ?thesis
    by (simp add: a sendSocketMsg_def handleSocketData_def d ne Let_def split: list.splits)
qed

text \<open>
  The theorem at a client that has just connected, the numbers of the record given by
  their decimal texts and the length field saying 2.
\<close>

theorem add_end_to_end_witness:
  "initialized (onConnect (new_TectonicDB :: string TectonicDB))
   \<and> activeQuery (onConnect (new_TectonicDB :: string TectonicDB)) = None
   \<and> trace (handleSocketData [1, 0, 0, 0, 0, 0, 0, 0, 2, 0x4F, 0x4B]
        (add (\<lambda>s. s)
           \<lparr>timestamp = ''100'', seq = ''0'', is_trade = True, is_bid = True, price = ''0.1'', size' = ''0.1''\<rparr>
           0 (onConnect (new_TectonicDB :: string TectonicDB))))
       = [Write ''ADD 100, 0, t, t, 0.1, 0.1;\<newline>'', Resolve 0 \<lparr>success = True, data = ''OK''\<rparr>]"
proof -
  have a: "initialized (onConnect (new_TectonicDB :: string TectonicDB))"
    and b: "activeQuery (onConnect (new_TectonicDB :: string TectonicDB)) = None"
    and t: "trace (onConnect (new_TectonicDB :: string TectonicDB)) = []"
    by (simp_all add: onConnect_def new_TectonicDB_def)
  have l: "length [0, 0, 0, 0, 0, 0, 0, 2 :: byte] = 8"
    by simp
  from add_end_to_end [OF a b _ _ _ _ l,
         where str = "\<lambda>s. s" and ts = "''100''" and sq = "''0''" and pr = "''0.1''" and sz = "''0.1''"
           and p = 0]
       a b t
  show ?thesis by simp
qed

subsection \<open>\<open>get\<close> and \<open>getall\<close>\<close>

text \<open>
  C8. The response delivered to \<open>get(n)\<close> or \<open>getall()\<close> is the decoded frame of the
  data event that answers its command. When the success flag of the frame is true,
  both return what \<open>JSON.parse\<close> makes of the payload; when it is false, \<open>get\<close> returns
  the payload as a string and \<open>getall\<close> returns null.
\<close>

theorem get_and_getall_returns:
  "(success (decode d) \<longrightarrow>
      get_return parse (decode d)
        = (case parse (data (decode d)) of Inl x \<Rightarrow> Inl x | Inr j \<Rightarrow> Inr (Parsed j))
      \<and> getall_return parse (decode d)
        = (case parse (data (decode d)) of Inl x \<Rightarrow> Inl x | Inr j \<Rightarrow> Inr (Parsed j)))
   \<and> (\<not> success (decode d) \<longrightarrow>
      get_return parse (decode d) = Inr (Raw (data (decode d)))
      \<and> getall_return parse (decode d) = Inr Null)
   \<and> (activeQuery c = None \<longrightarrow>
      writes (trace (get str n p c)) = writes (trace c) @ [''GET '' @ str n @ '' AS JSON\<newline>'']
      \<and> resolved (trace (handleSocketData d (get str n p c))) = resolved (trace c) @ [(p, decode d)]
      \<and> writes (trace (getall p c)) = writes (trace c) @ [''GET ALL AS JSON\<newline>'']
      \<and> resolved (trace (handleSocketData d (getall p c))) = resolved (trace c) @ [(p, decode d)])"
  by (simp add: get_return_def getall_return_def get_def getall_def get_text_def cmd_idle
      sendSocketMsg_def resolved_data)

text \<open>
  The theorem at a success frame with the payload \<open>[]\<close> and a failure frame with the
  payload \<open>no\<close>, for a parser that knows the text \<open>[]\<close> only.
\<close>

theorem get_and_getall_returns_witness:
  "success (decode [1, 0, 0, 0, 0, 0, 0, 0, 2, 0x5B, 0x5D])
   \<and> get_return (\<lambda>s. if s = ''[]'' then Inr (0::nat) else Inl ()) (decode [1, 0, 0, 0, 0, 0, 0, 0, 2, 0x5B, 0x5D])
       = Inr (Parsed 0)
   \<and> \<not> success (decode [0, 0, 0, 0, 0, 0, 0, 0, 2, 0x6E, 0x6F])
   \<and> get_return (\<lambda>s. if s = ''[]'' then Inr (0::nat) else Inl ()) (decode [0, 0, 0, 0, 0, 0, 0, 0, 2, 0x6E, 0x6F])
       = Inr (Raw ''no'')
   \<and> getall_return (\<lambda>s. if s = ''[]'' then Inr (0::nat) else Inl ()) (decode [0, 0, 0, 0, 0, 0, 0, 0, 2, 0x6E, 0x6F])
       = Inr Null
   \<and> resolved (trace (handleSocketData [1, 0, 0, 0, 0, 0, 0, 0, 2, 0x5B, 0x5D]
        (get (\<lambda>s. s) ''5'' 0 (onConnect (new_TectonicDB :: string TectonicDB)))))
       = [(0, \<lparr>success = True, data = ''[]''\<rparr>)]"
proof -
  have y: "decode [1, 0, 0, 0, 0, 0, 0, 0, 2, 0x5B, 0x5D] = \<lparr>success = True, data = ''[]''\<rparr>"
    by code_simp
  have n: "decode [0, 0, 0, 0, 0, 0, 0, 0, 2, 0x6E, 0x6F] = \<lparr>success = False, data = ''no''\<rparr>"
    by code_simp
  have a: "activeQuery (onConnect (new_TectonicDB :: string TectonicDB)) = None"
    and t: "trace (onConnect (new_TectonicDB :: string TectonicDB)) = []"
    by (simp_all add: onConnect_def new_TectonicDB_def)
  from get_and_getall_returns
         [where d = "[1, 0, 0, 0, 0, 0, 0, 0, 2, 0x5B, 0x5D]"
            and parse = "\<lambda>s. if s = ''[]'' then Inr (0::nat) else Inl ()"
            and c = "onConnect (new_TectonicDB :: string TectonicDB)" and str = "\<lambda>s. s" and n = "''5''" and p = 0]
       get_and_getall_returns
         [where d = "[0, 0, 0, 0, 0, 0, 0, 0, 2, 0x6E, 0x6F]"
            and parse = "\<lambda>s. if s = ''[]'' then Inr (0::nat) else Inl ()"
            and c = "onConnect (new_TectonicDB :: string TectonicDB)" and str = "\<lambda>s. s" and n = "''5''" and p = 0]
       y n a t
  show ?thesis by simp
qed

subsection \<open>A data event that ends in \<open>exit\<close>\<close>

lemma toString_endsWith_append:
  "toString_endsWith (pre @ [0x65, 0x78, 0x69, 0x74]) ''exit''"
proof -
  have "fromCharCode [0x65, 0x78, 0x69, 0x74] = ''exit''"
    by code_simp
  then show ?thesis by (simp add: toString_endsWith_def)
qed

text \<open>
  C9. When the text of the buffer of a data event ends with \<open>exit\<close>, in particular
  when its last four bytes are the codes of \<open>e\<close>, \<open>x\<close>, \<open>i\<close>, \<open>t\<close>, the handler
  delivers the decoded response to the active query (if there is one) and then
  destroys the socket, and does nothing else to the socket or the promises.
\<close>

theorem data_ending_in_exit_destroys_socket:
  "(toString_endsWith d ''exit'' \<longrightarrow>
      trace (handleSocketData d c)
        = trace c @ (case activeQuery c of Some q \<Rightarrow> [Resolve (promise q) (decode d)] | None \<Rightarrow> [])
            @ [Destroy])
   \<and> trace (handleSocketData (pre @ [0x65, 0x78, 0x69, 0x74]) c)
        = trace c
            @ (case activeQuery c of
                 Some q \<Rightarrow> [Resolve (promise q) (decode (pre @ [0x65, 0x78, 0x69, 0x74]))]
               | None \<Rightarrow> [])
            @ [Destroy]"
proof -
  have a: "toString_endsWith d' ''exit'' \<Longrightarrow>
      trace (handleSocketData d' c)
        = trace c @ (case activeQuery c of Some q \<Rightarrow> [Resolve (promise q) (decode d')] | None \<Rightarrow> [])
            @ [Destroy]" for d'
    by (simp add: handleSocketData_def exit_def Let_def split: option.splits list.splits)
  from a [of d] a [OF toString_endsWith_append [of pre]] show ?thesis by blast
qed

text \<open>The theorem at a failure frame with the payload \<open>exit\<close>, received while \<open>PING\<close> is active.\<close>

theorem data_ending_in_exit_destroys_socket_witness:
  "toString_endsWith [0, 0, 0, 0, 0, 0, 0, 0, 4, 0x65, 0x78, 0x69, 0x74] ''exit''
   \<and> trace (handleSocketData [0, 0, 0, 0, 0, 0, 0, 0, 4, 0x65, 0x78, 0x69, 0x74]
              (cmd ''PING'' 0 (onConnect (new_TectonicDB :: string TectonicDB))))
       = [Write ''PING\<newline>'', Resolve 0 \<lparr>success = False, data = ''exit''\<rparr>, Destroy]"
proof -
  have e: "toString_endsWith [0, 0, 0, 0, 0, 0, 0, 0, 4, 0x65, 0x78, 0x69, 0x74] ''exit''"
    by code_simp
  have d: "decode [0, 0, 0, 0, 0, 0, 0, 0, 4, 0x65, 0x78, 0x69, 0x74] = \<lparr>success = False, data = ''exit''\<rparr>"
    by code_simp
  have a: "activeQuery (cmd ''PING'' 0 (onConnect (new_TectonicDB :: string TectonicDB)))
             = Some \<lparr>message = ''PING'', promise = 0\<rparr>"
    and t: "trace (cmd ''PING'' 0 (onConnect (new_TectonicDB :: string TectonicDB))) = [Write ''PING\<newline>'']"
    by (simp_all add: new_TectonicDB_def onConnect_def cmd_def sendSocketMsg_def Let_def)
  from data_ending_in_exit_destroys_socket
         [of "[0, 0, 0, 0, 0, 0, 0, 0, 4, 0x65, 0x78, 0x69, 0x74]"
             "cmd ''PING'' 0 (onConnect (new_TectonicDB :: string TectonicDB))" "[]"]
       e d a t
  show ?thesis by simp
qed

subsection \<open>Writing to the socket\<close>

lemma step_writes:
  "set (writes (trace (step e c)))
     \<subseteq> set (writes (trace c)) \<union> (\<lambda>m. m @ ''\<newline>'') ` (message ` set (socketSendQueue c) \<union> set (submitted [e]))"
  by (cases e)
     (auto simp: cmd_def sendSocketMsg_def onConnect_def handleSocketData_def exit_def
        onSocketError_def Let_def split: option.splits list.splits)

lemma step_queue:
  "message ` set (socketSendQueue (step e c))
     \<subseteq> message ` set (socketSendQueue c) \<union> set (submitted [e])"
  by (cases e)
     (auto simp: cmd_def sendSocketMsg_def onConnect_def handleSocketData_def exit_def
        onSocketError_def Let_def split: option.splits list.splits)

lemma submitted_Cons: "set (submitted (e # es)) = set (submitted [e]) \<union> set (submitted es)"
  by (cases e) auto

lemma run_writes:
  "set (writes (trace (run es c)))
     \<subseteq> set (writes (trace c)) \<union> (\<lambda>m. m @ ''\<newline>'') ` (message ` set (socketSendQueue c) \<union> set (submitted es))"
proof (induction es arbitrary: c)
  case Nil
  then show ?case by simp
next
  case (Cons e es)
  have "set (writes (trace (run es (step e c))))
     \<subseteq> set (writes (trace (step e c)))
        \<union> (\<lambda>m. m @ ''\<newline>'') ` (message ` set (socketSendQueue (step e c)) \<union> set (submitted es))"
    by (rule Cons.IH)
  also have "\<dots> \<subseteq> set (writes (trace c))
        \<union> (\<lambda>m. m @ ''\<newline>'') ` (message ` set (socketSendQueue c) \<union> set (submitted (e # es)))"
    using step_writes [of e c] step_queue [of e c] unfolding submitted_Cons [of e es] by blast
  finally show ?case by simp
qed

text \<open>
  C10. \<open>sendSocketMsg(msg)\<close> makes exactly one call of \<open>socket.write\<close>, with the
  argument \<open>msg\<close> followed by a single newline character, and changes nothing else;
  and whatever happens to a new client, every string it writes to the socket is the
  text of a command some caller submitted, followed by a newline.
\<close>

theorem sendSocketMsg_writes_line:
  fixes c :: "'e TectonicDB" and es :: "'e event list"
  shows
  "trace (sendSocketMsg msg c) = trace c @ [Write (msg @ ''\<newline>'')]
   \<and> writes (trace (sendSocketMsg msg c)) = writes (trace c) @ [msg @ ''\<newline>'']
   \<and> socketSendQueue (sendSocketMsg msg c) = socketSendQueue c
   \<and> activeQuery (sendSocketMsg msg c) = activeQuery c
   \<and> initialized (sendSocketMsg msg c) = initialized c
   \<and> set (writes (trace (run es (new_TectonicDB :: 'e TectonicDB))))
        \<subseteq> set (lines (submitted es))"
proof -
  have "set (writes (trace (run es (new_TectonicDB :: 'e TectonicDB))))
        \<subseteq> set (lines (submitted es))"
    using run_writes [of es "new_TectonicDB :: 'e TectonicDB"]
    by (simp add: new_TectonicDB_def lines_def)
  then show ?thesis by (simp add: sendSocketMsg_def)
qed

end
